theory Spec2Isabelle
  imports Main
begin

section \<open>JavaScript values\<close>

text \<open>
  The service templates and the mosquitto \<open>ServiceBuilder\<close> build, return, throw and
  reject plain JavaScript values. A value is a primitive, a function (opaque: the model
  never calls one), an array, or an object. An object carries its own properties, in
  own-property order, and the data properties it sees through its prototype chain
  (for an \<open>Error\<close> these are \<open>name\<close> and \<open>message\<close>; methods are left out, since
  nothing here calls them). An object literal and an object made by \<open>JSON.parse\<close> have
  no inherited data properties. Numbers are the integer-valued ones.
  Outside the model: getters, \<open>toJSON\<close> methods, symbols, BigInt, cyclic objects.
\<close>

datatype jsv =
    JUndefined
  | JNull
  | JBool bool
  | JNum int
  | JStr string
  | JFun string
  | JArr "jsv list"
  | JObj "(string \<times> jsv) list" "(string \<times> jsv) list"

text \<open>The text that \<open>JSON.stringify\<close> writes and \<open>JSON.parse\<close> reads, as a syntax tree.\<close>

datatype json =
    TNull
  | TBool bool
  | TNum int
  | TStr string
  | TArr "json list"
  | TObj "(string \<times> json) list"

text \<open>Truthiness, as tested by \<open>if (networkConflicts)\<close>.\<close>

fun truthy :: "jsv \<Rightarrow> bool" where
  "truthy JUndefined = False"
| "truthy JNull = False"
| "truthy (JBool b) = b"
| "truthy (JNum n) = (n \<noteq> 0)"
| "truthy (JStr s) = (s \<noteq> [])"
| "truthy (JFun f) = True"
| "truthy (JArr xs) = True"
| "truthy (JObj own inh) = True"

text \<open>An object literal \<open>{ k1: v1, ... }\<close>.\<close>

definition obj :: "(string \<times> jsv) list \<Rightarrow> jsv" where
  "obj props = JObj props []"

text \<open>The own property names of an object value, and one own property.\<close>

fun keys :: "jsv \<Rightarrow> string list" where
  "keys (JObj own inh) = map fst own"
| "keys v = []"

fun own_prop :: "jsv \<Rightarrow> string \<Rightarrow> jsv option" where
  "own_prop (JObj own inh) k = map_of own k"
| "own_prop v k = None"

text \<open>
  An error object as the runtime creates it: own \<open>stack\<close> and \<open>message\<close>, and the
  \<open>name\<close> and the empty \<open>message\<close> of its prototype. The texts are the engine's; the model
  fixes one.
\<close>

definition runtime_error :: "string \<Rightarrow> string \<Rightarrow> jsv" where
  "runtime_error cls msg =
     JObj [(''stack'', JStr (cls @ '': '' @ msg)), (''message'', JStr msg)]
          [(''name'', JStr cls), (''message'', JStr [])]"

definition TypeError :: "string \<Rightarrow> jsv" where
  "TypeError msg = runtime_error ''TypeError'' msg"

definition SyntaxError :: "string \<Rightarrow> jsv" where
  "SyntaxError msg = runtime_error ''SyntaxError'' msg"

subsection \<open>\<open>Object.getOwnPropertyNames\<close>, \<open>JSON.stringify\<close> with an array replacer, \<open>JSON.parse\<close>\<close>

text \<open>The index of an element or of a character, as a property name.\<close>

definition digit :: "nat \<Rightarrow> char" where
  "digit d = ''0123456789'' ! d"

fun decimal :: "nat \<Rightarrow> string" where
  "decimal n = (if n < 10 then [digit n] else decimal (n div 10) @ [digit (n mod 10)])"

declare decimal.simps [simp del]

definition index_names :: "nat \<Rightarrow> string list" where
  "index_names n = map decimal [0..<n] @ [''length'']"

text \<open>
  \<open>Object.getOwnPropertyNames(v)\<close>: \<open>undefined\<close> and \<open>null\<close> have no object, which is a
  TypeError; a boolean or a number has no own property; a string and an array have their
  indices and \<open>length\<close>; an object has its own names.
\<close>

fun getOwnPropertyNames :: "jsv \<Rightarrow> jsv + string list" where
  "getOwnPropertyNames JUndefined = Inl (TypeError ''Cannot convert undefined or null to object'')"
| "getOwnPropertyNames JNull = Inl (TypeError ''Cannot convert undefined or null to object'')"
| "getOwnPropertyNames (JBool b) = Inr []"
| "getOwnPropertyNames (JNum n) = Inr []"
| "getOwnPropertyNames (JStr s) = Inr (index_names (length s))"
| "getOwnPropertyNames (JFun f) = Inr [''length'', ''name'']"
| "getOwnPropertyNames (JArr xs) = Inr (index_names (length xs))"
| "getOwnPropertyNames (JObj own inh) = Inr (map fst own)"

text \<open>\<open>Get(O, k)\<close> on an object: the own property, else the inherited one, else \<open>undefined\<close>.\<close>

definition Get :: "(string \<times> jsv) list \<Rightarrow> (string \<times> jsv) list \<Rightarrow> string \<Rightarrow> jsv" where
  "Get own inh k =
     (case map_of own k of
        Some v \<Rightarrow> v
      | None \<Rightarrow> (case map_of inh k of Some v \<Rightarrow> v | None \<Rightarrow> JUndefined))"

text \<open>
  \<open>SerializeJSONProperty\<close> with the property list \<open>K\<close> of an array replacer: \<open>undefined\<close>
  and functions have no text (\<open>None\<close>); an array writes \<open>null\<close> for such an element; an
  object, at every depth, writes the names of \<open>K\<close>, in the order of \<open>K\<close>, whose value it
  can \<open>Get\<close> and that have a text.
\<close>

function SerializeJSONProperty :: "string list \<Rightarrow> jsv \<Rightarrow> json option" where
  "SerializeJSONProperty K JUndefined = None"
| "SerializeJSONProperty K JNull = Some TNull"
| "SerializeJSONProperty K (JBool b) = Some (TBool b)"
| "SerializeJSONProperty K (JNum n) = Some (TNum n)"
| "SerializeJSONProperty K (JStr s) = Some (TStr s)"
| "SerializeJSONProperty K (JFun f) = None"
| "SerializeJSONProperty K (JArr xs) =
     Some (TArr (map (\<lambda>x. case SerializeJSONProperty K x of None \<Rightarrow> TNull | Some t \<Rightarrow> t) xs))"
| "SerializeJSONProperty K (JObj own inh) =
     Some (TObj (List.map_filter
       (\<lambda>k. map_option (Pair k) (SerializeJSONProperty K (Get own inh k))) K))"
  by pat_completeness auto

termination
proof (relation "measure (\<lambda>(K, v). size v)", goal_cases)
  case 1
  show ?case by simp
next
  case (2 K xs x)
  then show ?case
    by (simp add: less_Suc_eq_le size_list_estimation')
next
  case (3 K own inh k)
  have smaller: "size v < Suc (size_list (size_prod (\<lambda>_. 0) size) ps)"
    if "map_of ps k = Some v" for ps and v :: jsv
    using that by (induction ps) (auto split: if_splits)
  show ?case
    by (auto simp: Get_def less_Suc_eq_le split: option.splits dest: smaller)
qed

text \<open>The property list of an array replacer keeps the first occurrence of each name.\<close>

fun dedup :: "string list \<Rightarrow> string list" where
  "dedup [] = []"
| "dedup (k # ks) = k # dedup (filter (\<lambda>x. x \<noteq> k) ks)"

definition JSON_stringify :: "jsv \<Rightarrow> string list \<Rightarrow> json option" where
  "JSON_stringify v replacer = SerializeJSONProperty (dedup replacer) v"

fun JSON_parse :: "json \<Rightarrow> jsv" where
  "JSON_parse TNull = JNull"
| "JSON_parse (TBool b) = JBool b"
| "JSON_parse (TNum n) = JNum n"
| "JSON_parse (TStr s) = JStr s"
| "JSON_parse (TArr ts) = JArr (map JSON_parse ts)"
| "JSON_parse (TObj ms) = JObj (map (\<lambda>(k, t). (k, JSON_parse t)) ms) []"

text \<open>
  \<open>JSON.parse(JSON.stringify(err, Object.getOwnPropertyNames(err)))\<close>, with the two
  ways it throws: \<open>getOwnPropertyNames\<close> on \<open>undefined\<close> or \<open>null\<close>, and \<open>JSON.parse\<close>
  of \<open>undefined\<close> when \<open>err\<close> has no JSON text.
\<close>

definition snapshot :: "jsv \<Rightarrow> jsv + jsv" where
  "snapshot err =
     (case getOwnPropertyNames err of
        Inl e \<Rightarrow> Inl e
      | Inr names \<Rightarrow>
          (case JSON_stringify err names of
             None \<Rightarrow> Inl (SyntaxError ''undefined is not valid JSON'')
           | Some text \<Rightarrow> Inr (JSON_parse text)))"

section \<open>Service templates: \<open>getMeta\<close>\<close>

text \<open>
  The three catalog entries of the repository: \<open>prometheus/config.js\<close>,
  \<open>influxdb/config.js\<close>, \<open>espruinohub/config.js\<close>. Each \<open>getMeta()\<close> returns an object
  literal.
\<close>

definition prometheus_getMeta :: jsv where
  "prometheus_getMeta = obj
     [(''serviceName'', JStr ''prometheus''),
      (''displayName'', JStr ''Prometheus (untested)''),
      (''serviceTypeTags'', JArr [JStr ''wui'', JStr ''database manager''])]"

definition influxDb_getMeta :: jsv where
  "influxDb_getMeta = obj
     [(''serviceName'', JStr ''influxdb''),
      (''displayName'', JStr ''InfluxDB''),
      (''serviceTypeTags'', JArr [JStr ''database'', JStr ''timeseries'', JStr ''sql'']),
      (''iconUri'', JStr ''/logos/influxdb.svg'')]"

definition espruinohub_getMeta :: jsv where
  "espruinohub_getMeta = obj
     [(''serviceName'', JStr ''espruinohub''),
      (''displayName'', JStr ''EspruinoHub (untested)''),
      (''serviceTypeTags'', JArr [JStr ''mqtt'', JStr ''ble'', JStr ''rpi only''])]"

datatype template = Prometheus | InfluxDb | EspruinoHub

fun getMeta :: "template \<Rightarrow> jsv" where
  "getMeta Prometheus = prometheus_getMeta"
| "getMeta InfluxDb = influxDb_getMeta"
| "getMeta EspruinoHub = espruinohub_getMeta"

section \<open>The mosquitto \<open>ServiceBuilder\<close>\<close>

text \<open>
  A phase returns a promise whose executor runs at once and settles it: \<open>resolve(v)\<close>,
  \<open>reject(v)\<close>, or a throw that escapes the executor, which rejects with the thrown value.
\<close>

datatype outcome = Resolved jsv | Rejected jsv

definition serviceName :: string where
  "serviceName = ''mosquitto''"

text \<open>\<open>'${serviceName}'\<close> inside a template literal.\<close>

definition quoted :: "string \<Rightarrow> string" where
  "quoted s = [CHR 0x27] @ s @ [CHR 0x27]"

text \<open>
  The helpers come from \<open>src/utils/commonCompileLogic\<close> and
  \<open>src/utils/commonBuildChecks\<close>, which the builder requires and calls with
  \<open>{ buildTemplate: outputTemplateJson, buildOptions, serviceName }\<close>. They are parameters
  here. A compile helper may change the document it is given, and returns a value or
  throws one (\<open>Inl\<close>): any value can be thrown. A checker returns its findings or throws:
  the port and the dependency checker an array, which \<open>issues\<close> spreads; the network
  checker one value, which \<open>issues\<close> tests and pushes.
\<close>

type_synonym ('d, 'o) compile_helper = "'d \<Rightarrow> 'o \<Rightarrow> string \<Rightarrow> 'd \<times> (jsv + jsv)"

record ('d, 'o) commonCompileLogic =
  setModifiedPorts :: "('d, 'o) compile_helper"
  setLoggingState :: "('d, 'o) compile_helper"
  setNetworkMode :: "('d, 'o) compile_helper"
  setNetworks :: "('d, 'o) compile_helper"

record ('d, 'o) commonBuildChecks =
  checkPortConflicts :: "'d \<Rightarrow> 'o \<Rightarrow> string \<Rightarrow> jsv + jsv list"
  checkNetworkConflicts :: "'d \<Rightarrow> 'o \<Rightarrow> string \<Rightarrow> jsv + jsv"
  checkDependencyServices :: "'d \<Rightarrow> 'o \<Rightarrow> string \<Rightarrow> jsv + jsv list"

text \<open>
  The \<open>catch (err)\<close> block of the three phases: logging, then \<open>reject\<close> with the object
  literal whose \<open>error\<close> is the snapshot of \<open>err\<close>. When the snapshot itself throws (\<open>err\<close>
  is \<open>undefined\<close>, \<open>null\<close> or a function), the throw leaves the executor and the promise
  rejects with that error instead.
\<close>

definition catch_reject :: "string \<Rightarrow> jsv \<Rightarrow> outcome" where
  "catch_reject component err =
     (case snapshot err of
        Inl e \<Rightarrow> Rejected e
      | Inr s \<Rightarrow>
          Rejected (obj [(''component'', JStr component),
                         (''message'', JStr ''Unhandled error occured''),
                         (''error'', s)]))"

subsection \<open>\<open>compile\<close>\<close>

text \<open>
  The \<open>try\<close> block: the four helpers in the order of the \<open>compileResults\<close> literal, on the
  one document; the first throw ends it. Otherwise \<open>resolve({ type: 'service' })\<close>.
\<close>

definition compile_try ::
  "('d, 'o) commonCompileLogic \<Rightarrow> 'd \<Rightarrow> 'o \<Rightarrow> 'd \<times> (jsv + jsv)" where
  "compile_try L outputTemplateJson buildOptions =
     (case setModifiedPorts L outputTemplateJson buildOptions serviceName of
        (d1, Inl err) \<Rightarrow> (d1, Inl err)
      | (d1, Inr modifiedPorts) \<Rightarrow>
     (case setLoggingState L d1 buildOptions serviceName of
        (d2, Inl err) \<Rightarrow> (d2, Inl err)
      | (d2, Inr modifiedLogging) \<Rightarrow>
     (case setNetworkMode L d2 buildOptions serviceName of
        (d3, Inl err) \<Rightarrow> (d3, Inl err)
      | (d3, Inr modifiedNetworkMode) \<Rightarrow>
     (case setNetworks L d3 buildOptions serviceName of
        (d4, Inl err) \<Rightarrow> (d4, Inl err)
      | (d4, Inr modifiedNetworks) \<Rightarrow>
          (d4, Inr (obj [(''type'', JStr ''service'')]))))))"

definition compile ::
  "('d, 'o) commonCompileLogic \<Rightarrow> 'd \<Rightarrow> 'o \<Rightarrow> 'd \<times> outcome" where
  "compile L outputTemplateJson buildOptions =
     (case compile_try L outputTemplateJson buildOptions of
        (d, Inr v) \<Rightarrow> (d, Resolved v)
      | (d, Inl err) \<Rightarrow>
          (d, catch_reject (''ServiceBuilder::compile() - '' @ quoted serviceName) err))"

subsection \<open>\<open>issues\<close>\<close>

definition issues_try ::
  "('d, 'o) commonBuildChecks \<Rightarrow> 'd \<Rightarrow> 'o \<Rightarrow> jsv + jsv" where
  "issues_try C outputTemplateJson buildOptions =
     (let issues = [] in
      case checkPortConflicts C outputTemplateJson buildOptions serviceName of
        Inl err \<Rightarrow> Inl err
      | Inr portConflicts \<Rightarrow>
     (let issues = issues @ portConflicts in
      case checkDependencyServices C outputTemplateJson buildOptions serviceName of
        Inl err \<Rightarrow> Inl err
      | Inr serviceDependencies \<Rightarrow>
     (let issues = issues @ serviceDependencies in
      case checkNetworkConflicts C outputTemplateJson buildOptions serviceName of
        Inl err \<Rightarrow> Inl err
      | Inr networkConflicts \<Rightarrow>
     (let issues = (if truthy networkConflicts then issues @ [networkConflicts] else issues)
      in Inr (JArr issues)))))"

definition issues ::
  "('d, 'o) commonBuildChecks \<Rightarrow> 'd \<Rightarrow> 'o \<Rightarrow> outcome" where
  "issues C outputTemplateJson buildOptions =
     (case issues_try C outputTemplateJson buildOptions of
        Inr v \<Rightarrow> Resolved v
      | Inl err \<Rightarrow> catch_reject (''ServiceBuilder::issues() - '' @ quoted serviceName) err)"

subsection \<open>\<open>build\<close>\<close>

text \<open>The shell fragments, as the template literals hold them.\<close>

definition checkServiceFilesCopied :: string where
  \<open>checkServiceFilesCopied =
''\<newline>if [[ ! -f ./services/mosquitto/mosquitto.conf ]]; then\<newline>  echo "Mosquitto config file is missing!"\<newline>  sleep 2\<newline>fi\<newline>''\<close>

definition createVolumesDirectory :: string where
  \<open>createVolumesDirectory =
''\<newline>mkdir -p ./volumes/mosquitto/data\<newline>mkdir -p ./volumes/mosquitto/pwfile\<newline>mkdir -p ./volumes/mosquitto/log\<newline>''\<close>

definition checkVolumesDirectory :: string where
  \<open>checkVolumesDirectory =
''\<newline>HAS_ERROR="false"\<newline>if [[ ! -d ./volumes/mosquitto/data ]]; then\<newline>  echo "Mosquitto data directory is missing!"\<newline>  HAS_ERROR="true"\<newline>fi\<newline>\<newline>if [[ ! -d ./volumes/mosquitto/pwfile ]]; then\<newline>  echo "Mosquitto pwfile directory is missing!"\<newline>  HAS_ERROR="true"\<newline>fi\<newline>\<newline>if [[ ! -d ./volumes/mosquitto/log ]]; then\<newline>  echo "Mosquitto log directory is missing!"\<newline>  HAS_ERROR="true"\<newline>fi\<newline>\<newline>if [[ "$HAS_ERROR" == "true ]]; then\<newline>  echo "Errors were detected when setting up Mosquitto"\<newline>  sleep 1\<newline>fi\<newline>''\<close>

definition setupVolumePermissions :: "bool \<Rightarrow> string" where
  \<open>setupVolumePermissions setUser1883 =
     (if setUser1883 then
''\<newline>echo "Updating mosquitto permissions:"\<newline>echo "  chown -R 1883:1883 ./volumes/mosquitto/"\<newline>sudo chown -R 1883:1883 ./volumes/mosquitto/\<newline>    ''
      else
''\<newline>echo "Mosquitto volume permissions not changed."\<newline>    '')\<close>

text \<open>
  What \<open>build\<close> is handed: the document and the options (which it only logs), and the
  three arrays it pushes to. The arrays are the orchestrator's own, apart from the
  document.
\<close>

record ('d, 'o) build_params =
  outputTemplateJson :: 'd
  buildOptions :: 'o
  tmpPath :: jsv
  zipList :: "jsv list"
  prebuildScripts :: "jsv list"
  postbuildScripts :: "jsv list"

text \<open>
  What the builder closes over: \<open>settings\<close> (an argument of \<open>ServiceBuilder\<close>), and
  Node's \<open>__dirname\<close> and \<open>path.join\<close> on strings.
\<close>

record builder_env =
  settings :: jsv
  dirname :: string
  path_join :: "string list \<Rightarrow> string"

text \<open>
  \<open>v.k\<close> for a name \<open>k\<close> that no built-in prototype defines (\<open>paths\<close>, \<open>serviceFiles\<close>):
  a TypeError on \<open>undefined\<close> and \<open>null\<close>, the property of an object, \<open>undefined\<close> on
  every other value.
\<close>

fun member :: "jsv \<Rightarrow> string \<Rightarrow> jsv + jsv" where
  "member JUndefined k =
     Inl (TypeError (''Cannot read properties of undefined (reading '' @ quoted k @ '')''))"
| "member JNull k =
     Inl (TypeError (''Cannot read properties of null (reading '' @ quoted k @ '')''))"
| "member (JObj own inh) k = Inr (Get own inh k)"
| "member v k = Inr JUndefined"

text \<open>\<open>path.join(...)\<close>: a TypeError unless every argument is a string.\<close>

fun string_args :: "jsv list \<Rightarrow> string list option" where
  "string_args [] = Some []"
| "string_args (JStr s # vs) = map_option ((#) s) (string_args vs)"
| "string_args (v # vs) = None"

definition path_join_call :: "builder_env \<Rightarrow> jsv list \<Rightarrow> jsv + string" where
  \<open>path_join_call env args =
     (case string_args args of
        None \<Rightarrow> Inl (TypeError ''The "path" argument must be of type string'')
      | Some ss \<Rightarrow> Inr (path_join env ss))\<close>

definition script :: "string \<Rightarrow> string \<Rightarrow> jsv" where
  "script comment code = obj
     [(''serviceName'', JStr serviceName),
      (''comment'', JStr comment),
      (''multilineComment'', JNull),
      (''code'', JStr code)]"

definition build_try ::
  "builder_env \<Rightarrow> ('d, 'o) build_params \<Rightarrow> ('d, 'o) build_params \<times> (jsv + jsv)" where
  "build_try env p =
     (case member (settings env) ''paths'' of
        Inl err \<Rightarrow> (p, Inl err)
      | Inr paths \<Rightarrow>
     (case member paths ''serviceFiles'' of
        Inl err \<Rightarrow> (p, Inl err)
      | Inr serviceFiles \<Rightarrow>
     (case path_join_call env [JStr (dirname env), serviceFiles, JStr ''mosquitto.conf''] of
        Inl err \<Rightarrow> (p, Inl err)
      | Inr mosquittoConfFilePath \<Rightarrow>
     (let p = p\<lparr>zipList := zipList p @
                 [obj [(''fullPath'', JStr mosquittoConfFilePath),
                       (''zipName'', JStr ''/services/mosquitto/mosquitto.conf'')]]\<rparr>;
          p = p\<lparr>postbuildScripts := postbuildScripts p @
                 [script ''Ensure required service files exist for launch''
                    checkServiceFilesCopied]\<rparr>;
          p = p\<lparr>prebuildScripts := prebuildScripts p @
                 [script ''Create required service directory exists for first launch''
                    createVolumesDirectory]\<rparr>;
          p = p\<lparr>postbuildScripts := postbuildScripts p @
                 [script ''Ensure required service directory exists for launch''
                    checkVolumesDirectory]\<rparr>;
          p = p\<lparr>postbuildScripts := postbuildScripts p @
                 [script ''Setup correct permissions for volume''
                    (setupVolumePermissions True)]\<rparr>
      in (p, Inr (obj [(''type'', JStr ''service'')]))))))"

definition build ::
  "builder_env \<Rightarrow> ('d, 'o) build_params \<Rightarrow> ('d, 'o) build_params \<times> outcome" where
  "build env p =
     (case build_try env p of
        (p', Inr v) \<Rightarrow> (p', Resolved v)
      | (p', Inl err) \<Rightarrow>
          (p', catch_reject (''ServiceBuilder::build() - '' @ quoted serviceName) err))"

section \<open>Compile-merge logic, from the specification\<close>

text \<open>
  Modelled from the spec: the network mode of a service block, which the network-mode
  merge "sets [to] either "none" or a named network list" (4.2). The module
  \<open>commonCompileLogic\<close> that holds the four merges is not among the sources.
\<close>

datatype network_mode = NoNetwork | NamedNetworks "string list"

text \<open>
  Modelled from the spec: the Option Descriptor (3), with the fields that the templates'
  \<open>getConfigOptions\<close> return. A labelled port is a pair (host port, container port) with
  its label. The descriptor of mosquitto is not among the sources; it is a parameter.
\<close>

record option_descriptor =
  labeledPorts :: "((string \<times> string) \<times> string) list"
  modifyableEnvironment :: "(string \<times> string) list"
  volumes :: bool
  networks :: bool
  logging :: bool
  imageTags :: "string list"

text \<open>
  Modelled from the spec: one service's block of the Working Document (3): "ports,
  environment, volumes, network mode, logging flags", and the networks it is attached to.
  The ports map a container port to its host port.
\<close>

record service_block =
  ports :: "string \<rightharpoonup> string"
  environment :: "(string \<times> string) list"
  volume_mounts :: "string list"
  network_mode :: "network_mode option"
  attached_networks :: "string list"
  logging_enabled :: bool

text \<open>
  Modelled from the spec: the Build Options of one service (3): "selected port remaps",
  each a pair (host port, container port), and the selected logging, network mode and
  networks. A choice the user did not make is absent.
\<close>

record service_options =
  selected_ports :: "(string \<times> string) list"
  selected_logging :: "bool option"
  selected_network_mode :: "network_mode option"
  selected_networks :: "string list"

text \<open>
  Modelled from the spec: the Working Document, a "mapping of service-name to
  per-service config block", and the build options, per service.
\<close>

type_synonym working_document = "string \<rightharpoonup> service_block"

type_synonym build_options = "string \<rightharpoonup> service_options"

text \<open>
  Modelled from the spec: a requested remap is "declared in the Option Descriptor's label
  set" when its container port is that of a labelled port.
\<close>

definition declared_port :: "option_descriptor \<Rightarrow> string \<times> string \<Rightarrow> bool" where
  "declared_port D remap = (snd remap \<in> set (map (snd \<circ> fst) (labeledPorts D)))"

text \<open>
  Modelled from the spec: "write the accepted remap into the service's block, replacing
  any previous mapping for that container port".
\<close>

definition write_port :: "string \<times> string \<Rightarrow> (string \<rightharpoonup> string) \<Rightarrow> (string \<rightharpoonup> string)" where
  "write_port remap m = m(snd remap \<mapsto> fst remap)"

text \<open>
  Modelled from the spec: the port merge (4.2), "for each requested port remap": the
  declared ones are written in the order requested, the others dropped silently.
\<close>

definition port_merge :: "option_descriptor \<Rightarrow> service_options \<Rightarrow> service_block \<Rightarrow> service_block" where
  "port_merge D req b =
     b\<lparr>ports := fold write_port (filter (declared_port D) (selected_ports req)) (ports b)\<rparr>"

text \<open>
  Modelled from the spec: the logging merge (4.2), a "boolean toggle; only applied if the
  descriptor marks logging as supported". The toggle is the value the user selected; the
  merge sets the flag to it, and overwrites nothing when the options do not hold it (3).
\<close>

definition logging_merge :: "option_descriptor \<Rightarrow> service_options \<Rightarrow> service_block \<Rightarrow> service_block" where
  "logging_merge D req b =
     (case selected_logging req of
        Some on \<Rightarrow> if logging D then b\<lparr>logging_enabled := on\<rparr> else b
      | None \<Rightarrow> b)"

text \<open>
  Modelled from the spec: the network-mode merge (4.2), "only applied if descriptor marks
  \<open>networks: true\<close>".
\<close>

definition network_mode_merge :: "option_descriptor \<Rightarrow> service_options \<Rightarrow> service_block \<Rightarrow> service_block" where
  "network_mode_merge D req b =
     (case selected_network_mode req of
        Some mode \<Rightarrow> if networks D then b\<lparr>network_mode := Some mode\<rparr> else b
      | None \<Rightarrow> b)"

text \<open>
  Modelled from the spec: the networks merge (4.2), which "attaches the service to zero or
  more named user-defined networks": each selected network joins those of the block, once.
  It is never applied for a descriptor with \<open>networks: false\<close> (3, 8).
\<close>

definition networks_merge :: "option_descriptor \<Rightarrow> service_options \<Rightarrow> service_block \<Rightarrow> service_block" where
  "networks_merge D req b =
     (if networks D
      then b\<lparr>attached_networks := List.union (selected_networks req) (attached_networks b)\<rparr>
      else b)"

text \<open>
  Modelled from the spec: a merge as the helper \<open>compile\<close> calls, "scoped to one service's
  block in the Working Document" (4.2): it replaces the block of \<open>serviceName\<close>, when the
  document has one and the options hold choices for it, and never throws. The spec gives
  no return value (\<open>compile\<close> only logs it).
\<close>

definition merge_helper ::
  "(service_options \<Rightarrow> service_block \<Rightarrow> service_block) \<Rightarrow>
   (working_document, build_options) compile_helper" where
  "merge_helper merge doc opts name =
     (case (doc name, opts name) of
        (Some b, Some req) \<Rightarrow> (doc(name \<mapsto> merge req b), Inr JUndefined)
      | _ \<Rightarrow> (doc, Inr JUndefined))"

text \<open>
  Modelled from the spec: the four helpers of \<open>commonCompileLogic\<close>, for the descriptor
  \<open>D\<close> of the service.
\<close>

definition spec_compile_logic :: "option_descriptor \<Rightarrow> (working_document, build_options) commonCompileLogic" where
  "spec_compile_logic D =
     \<lparr>setModifiedPorts = merge_helper (port_merge D),
      setLoggingState = merge_helper (logging_merge D),
      setNetworkMode = merge_helper (network_mode_merge D),
      setNetworks = merge_helper (networks_merge D)\<rparr>"

text \<open>
  Modelled from the spec: what one \<open>compile\<close> makes of a block, the four merges in the order
  \<open>compile\<close> calls them.
\<close>

definition merge_all :: "option_descriptor \<Rightarrow> service_options \<Rightarrow> service_block \<Rightarrow> service_block" where
  "merge_all D req b = networks_merge D req (network_mode_merge D req (logging_merge D req (port_merge D req b)))"

section \<open>Vocabulary and sample inputs\<close>

subsection \<open>Vocabulary of the properties\<close>

text \<open>What a settled promise carries.\<close>

fun rejection :: "outcome \<Rightarrow> jsv option" where
  "rejection (Rejected v) = Some v"
| "rejection (Resolved v) = None"

fun resolution :: "outcome \<Rightarrow> jsv option" where
  "resolution (Resolved v) = Some v"
| "resolution (Rejected v) = None"




text \<open>The lines of a shell fragment.\<close>

fun lines :: "string \<Rightarrow> string list" where
  "lines [] = [[]]"
| "lines (c # cs) =
     (if c = CHR 0x0A then [] # lines cs
      else (case lines cs of [] \<Rightarrow> [[c]] | l # ls \<Rightarrow> (c # l) # ls))"

subsection \<open>Sample helpers, checkers and inputs\<close>

text \<open>
  A helper that reads \<open>buildTemplate.services\<close>, and so throws a TypeError on an
  \<open>undefined\<close> document; checkers that report two port conflicts, one missing dependency
  and a given network finding; a builder environment and empty build lists; an error
  object with a function among its own properties and a nested object.
\<close>

definition reads_services :: "(jsv, jsv) compile_helper" where
  "reads_services doc opts name =
     (doc, map_sum id (\<lambda>services. JBool False) (member doc ''services''))"

definition sample_logic :: "(jsv, jsv) commonCompileLogic" where
  "sample_logic = \<lparr>setModifiedPorts = reads_services, setLoggingState = reads_services,
     setNetworkMode = reads_services, setNetworks = reads_services\<rparr>"

definition port_issue :: "string \<Rightarrow> string \<Rightarrow> jsv" where
  "port_issue a b = obj [(''type'', JStr ''service''), (''name'', JStr ''port''),
     (''issueType'', JStr ''portConflict''), (''message'', JStr (a @ '' and '' @ b))]"

definition sample_checks :: "jsv \<Rightarrow> (jsv, jsv) commonBuildChecks" where
  "sample_checks network =
     \<lparr>checkPortConflicts = (\<lambda>doc opts name.
          map_sum id (\<lambda>services. [port_issue name ''nodered'', port_issue name ''grafana''])
            (member doc ''services'')),
      checkNetworkConflicts = (\<lambda>doc opts name. Inr network),
      checkDependencyServices = (\<lambda>doc opts name. Inr [JStr ''needs nodered''])\<rparr>"

definition sample_doc :: jsv where
  "sample_doc = obj [(''services'', obj [])]"

definition sample_env :: "jsv \<Rightarrow> builder_env" where
  "sample_env s = \<lparr>settings = s, dirname = ''/iotstack/templates/services/mosquitto'',
     path_join = (\<lambda>ss. foldr (\<lambda>a b. if b = [] then a else a @ ''/'' @ b) ss [])\<rparr>"

definition sample_settings :: jsv where
  "sample_settings = obj [(''paths'', obj [(''serviceFiles'', JStr ''files'')])]"

definition sample_params :: "(jsv, jsv) build_params" where
  "sample_params = \<lparr>outputTemplateJson = sample_doc, buildOptions = JNull,
     tmpPath = JStr ''/tmp'', zipList = [], prebuildScripts = [], postbuildScripts = []\<rparr>"





text \<open>A descriptor, a block and options for mosquitto, for the merges.\<close>

definition sample_descriptor :: option_descriptor where
  "sample_descriptor = \<lparr>labeledPorts = [((''1883'', ''1883''), ''mqtt''), ((''9001'', ''9001''), ''websocket'')],
     modifyableEnvironment = [], volumes = True, networks = True, logging = True,
     imageTags = [''latest'']\<rparr>"

definition sample_block :: service_block where
  "sample_block = \<lparr>ports = [''1883'' \<mapsto> ''1883'', ''9001'' \<mapsto> ''9001''], environment = [],
     volume_mounts = [''./volumes/mosquitto/data:/mosquitto/data''], network_mode = None,
     attached_networks = [''iotstack_nw''], logging_enabled = False\<rparr>"

definition sample_options :: service_options where
  "sample_options = \<lparr>selected_ports = [(''1884'', ''1883''), (''8080'', ''80''), (''1885'', ''1883'')],
     selected_logging = Some True, selected_network_mode = None,
     selected_networks = [''iotstack_nw'', ''backend'']\<rparr>"

subsection \<open>Lemmas on the snapshot and on the three phases\<close>






lemma snapshot_without_object:
  "snapshot JUndefined = Inl (TypeError ''Cannot convert undefined or null to object'')"
  "snapshot JNull = Inl (TypeError ''Cannot convert undefined or null to object'')"
  "snapshot (JFun f) = Inl (SyntaxError ''undefined is not valid JSON'')"
  by (simp_all add: snapshot_def JSON_stringify_def)


text \<open>
  On \<open>undefined\<close>, \<open>null\<close> and a function, the \<open>catch\<close> block does not reach its \<open>reject\<close>: the
  promise rejects with the error of the snapshot.
\<close>

lemma catch_reject_without_snapshot:
  "catch_reject c JUndefined = Rejected (TypeError ''Cannot convert undefined or null to object'')"
  "catch_reject c JNull = Rejected (TypeError ''Cannot convert undefined or null to object'')"
  "catch_reject c (JFun f) = Rejected (SyntaxError ''undefined is not valid JSON'')"
  by (simp_all add: catch_reject_def snapshot_without_object)

text \<open>Each phase resolves with what its \<open>try\<close> block returns, or rejects through \<open>catch\<close>.\<close>

lemma compile_cases:
  "(\<exists>d' v. compile_try L d opts = (d', Inr v) \<and> compile L d opts = (d', Resolved v)) \<or>
   (\<exists>d' err. compile_try L d opts = (d', Inl err) \<and>
       compile L d opts = (d', catch_reject (''ServiceBuilder::compile() - '' @ quoted serviceName) err))"
  by (auto simp: compile_def split: prod.splits sum.splits)

lemma issues_cases:
  "(\<exists>v. issues_try C d opts = Inr v \<and> issues C d opts = Resolved v) \<or>
   (\<exists>err. issues_try C d opts = Inl err \<and>
       issues C d opts = catch_reject (''ServiceBuilder::issues() - '' @ quoted serviceName) err)"
  by (auto simp: issues_def split: sum.splits)

lemma build_cases:
  "(\<exists>p' v. build_try env p = (p', Inr v) \<and> build env p = (p', Resolved v)) \<or>
   (\<exists>p' err. build_try env p = (p', Inl err) \<and>
       build env p = (p', catch_reject (''ServiceBuilder::build() - '' @ quoted serviceName) err))"
  by (auto simp: build_def split: prod.splits sum.splits)

lemma catch_reject_not_Resolved:
  "catch_reject c err \<noteq> Resolved v" "Resolved v \<noteq> catch_reject c err"
  by (auto simp: catch_reject_def split: sum.splits)

lemma issues_try_Inr:
  "issues_try C d opts = Inr v \<longleftrightarrow>
     (\<exists>ps ds n. checkPortConflicts C d opts serviceName = Inr ps \<and>
        checkDependencyServices C d opts serviceName = Inr ds \<and>
        checkNetworkConflicts C d opts serviceName = Inr n \<and>
        v = JArr (ps @ ds @ (if truthy n then [n] else [])))"
  by (auto simp: issues_try_def Let_def split: sum.splits)

lemma issues_Resolved:
  "issues C d opts = Resolved v \<longleftrightarrow> issues_try C d opts = Inr v"
  using issues_cases [of C d opts] by (auto simp: catch_reject_not_Resolved)

lemma build_try_Inr:
  assumes "build_try env p = (p', Inr v)"
  shows "\<exists>fullPath. p' = p\<lparr>
      zipList := zipList p @
        [obj [(''fullPath'', JStr fullPath),
              (''zipName'', JStr ''/services/mosquitto/mosquitto.conf'')]],
      prebuildScripts := prebuildScripts p @
        [script ''Create required service directory exists for first launch''
           createVolumesDirectory],
      postbuildScripts := postbuildScripts p @
        [script ''Ensure required service files exist for launch'' checkServiceFilesCopied,
         script ''Ensure required service directory exists for launch'' checkVolumesDirectory,
         script ''Setup correct permissions for volume'' (setupVolumePermissions True)]\<rparr>"
  using assms by (auto simp: build_try_def Let_def split: sum.splits)

lemma build_try_Inl:
  assumes "build_try env p = (p', Inl err)"
  shows "p' = p"
  using assms by (auto simp: build_try_def Let_def split: sum.splits)

lemma build_Resolved:
  "build env p = (p', Resolved v) \<longleftrightarrow> build_try env p = (p', Inr v)"
  using build_cases [of env p] by (auto simp: catch_reject_not_Resolved)

text \<open>The text of each shell fragment, line by line.\<close>

lemma checkServiceFilesCopied_lines:
  \<open>lines checkServiceFilesCopied =
     [[],
      ''if [[ ! -f ./services/mosquitto/mosquitto.conf ]]; then'',
      ''  echo "Mosquitto config file is missing!"'',
      ''  sleep 2'',
      ''fi'',
      []]\<close>
  by (simp add: checkServiceFilesCopied_def)

lemma createVolumesDirectory_lines:
  \<open>lines createVolumesDirectory =
     [[],
      ''mkdir -p ./volumes/mosquitto/data'',
      ''mkdir -p ./volumes/mosquitto/pwfile'',
      ''mkdir -p ./volumes/mosquitto/log'',
      []]\<close>
  by (simp add: createVolumesDirectory_def)

lemma checkVolumesDirectory_lines:
  \<open>lines checkVolumesDirectory =
     [[],
      ''HAS_ERROR="false"'',
      ''if [[ ! -d ./volumes/mosquitto/data ]]; then'',
      ''  echo "Mosquitto data directory is missing!"'',
      ''  HAS_ERROR="true"'',
      ''fi'',
      [],
      ''if [[ ! -d ./volumes/mosquitto/pwfile ]]; then'',
      ''  echo "Mosquitto pwfile directory is missing!"'',
      ''  HAS_ERROR="true"'',
      ''fi'',
      [],
      ''if [[ ! -d ./volumes/mosquitto/log ]]; then'',
      ''  echo "Mosquitto log directory is missing!"'',
      ''  HAS_ERROR="true"'',
      ''fi'',
      [],
      ''if [[ "$HAS_ERROR" == "true ]]; then'',
      ''  echo "Errors were detected when setting up Mosquitto"'',
      ''  sleep 1'',
      ''fi'',
      []]\<close>
  by (simp add: checkVolumesDirectory_def)

lemma setupVolumePermissions_lines:
  \<open>lines (setupVolumePermissions True) =
     [[],
      ''echo "Updating mosquitto permissions:"'',
      ''echo "  chown -R 1883:1883 ./volumes/mosquitto/"'',
      ''sudo chown -R 1883:1883 ./volumes/mosquitto/'',
      ''    '']\<close>
  by (simp add: setupVolumePermissions_def)

text \<open>The equations that evaluate the phases on concrete inputs.\<close>

lemmas phase_simps =
  compile_def compile_try_def issues_def issues_try_def build_def build_try_def
  catch_reject_def snapshot_def JSON_stringify_def TypeError_def runtime_error_def
  Get_def obj_def path_join_call_def quoted_def serviceName_def Let_def

subsection \<open>Lemmas on the merges\<close>

text \<open>Writing remaps one after the other overrides the ports with the remaps, the last one first.\<close>

lemma fold_write_port: "fold write_port rs m = m ++ map_of (map (\<lambda>r. (snd r, fst r)) (rev rs))"
proof (induction rs arbitrary: m)
  case Nil
  show ?case by simp
next
  case (Cons r rs)
  have "fold write_port (r # rs) m = fold write_port rs (m(snd r \<mapsto> fst r))"
    by (simp add: write_port_def)
  also have "\<dots> = m(snd r \<mapsto> fst r) ++ map_of (map (\<lambda>r. (snd r, fst r)) (rev rs))"
    by (rule Cons.IH)
  also have "\<dots> = m ++ (map_of [(snd r, fst r)] ++ map_of (map (\<lambda>r. (snd r, fst r)) (rev rs)))"
    by (rule ext) (simp add: map_add_def split: option.splits)
  also have "map_of [(snd r, fst r)] ++ map_of (map (\<lambda>r. (snd r, fst r)) (rev rs))
      = map_of (map (\<lambda>r. (snd r, fst r)) (rev (r # rs)))"
    by (simp only: rev.simps map_append map_of_append list.map)
  finally show ?case .
qed

lemma map_add_twice: "m ++ g ++ g = m ++ g"
  by (rule ext) (simp add: map_add_def split: option.splits)

lemma fold_write_port_twice: "fold write_port rs (fold write_port rs m) = fold write_port rs m"
  by (simp only: fold_write_port map_add_twice)

lemma union_absorb: "set xs \<subseteq> set ys \<Longrightarrow> List.union xs ys = ys"
  by (induction xs arbitrary: ys) (simp_all add: List.union_def)

lemma union_twice: "List.union xs (List.union xs ys) = List.union xs ys"
  by (rule union_absorb) simp

text \<open>Each merge, done twice, is the merge done once; and the merges commute.\<close>

lemma port_merge_twice: "port_merge D req (port_merge D req b) = port_merge D req b"
  by (simp add: port_merge_def fold_write_port_twice)

lemma logging_merge_twice: "logging_merge D req (logging_merge D req b) = logging_merge D req b"
  by (simp add: logging_merge_def split: option.splits)

lemma network_mode_merge_twice:
  "network_mode_merge D req (network_mode_merge D req b) = network_mode_merge D req b"
  by (simp add: network_mode_merge_def split: option.splits)

lemma networks_merge_twice: "networks_merge D req (networks_merge D req b) = networks_merge D req b"
  by (simp add: networks_merge_def union_twice)

lemma logging_port_commute:
  "logging_merge D req (port_merge D req b) = port_merge D req (logging_merge D req b)"
  by (simp add: logging_merge_def port_merge_def split: option.splits)

lemma network_mode_port_commute:
  "network_mode_merge D req (port_merge D req b) = port_merge D req (network_mode_merge D req b)"
  by (simp add: network_mode_merge_def port_merge_def split: option.splits)

lemma networks_port_commute:
  "networks_merge D req (port_merge D req b) = port_merge D req (networks_merge D req b)"
  by (simp add: networks_merge_def port_merge_def)

lemma network_mode_logging_commute:
  "network_mode_merge D req (logging_merge D req b) = logging_merge D req (network_mode_merge D req b)"
  by (simp add: network_mode_merge_def logging_merge_def split: option.splits)

lemma networks_logging_commute:
  "networks_merge D req (logging_merge D req b) = logging_merge D req (networks_merge D req b)"
  by (simp add: networks_merge_def logging_merge_def split: option.splits)

lemma networks_network_mode_commute:
  "networks_merge D req (network_mode_merge D req b) = network_mode_merge D req (networks_merge D req b)"
  by (simp add: networks_merge_def network_mode_merge_def split: option.splits)

lemma merge_all_twice: "merge_all D req (merge_all D req b) = merge_all D req b"
proof -
  let ?P = "port_merge D req" and ?L = "logging_merge D req"
  let ?M = "network_mode_merge D req" and ?N = "networks_merge D req"
  have "?N (?M (?L (?P (?N (?M (?L (?P b))))))) = ?P (?P (?L (?L (?M (?M (?N (?N b)))))))"
    by (simp only: logging_port_commute network_mode_port_commute networks_port_commute
          network_mode_logging_commute networks_logging_commute networks_network_mode_commute)
  also have "\<dots> = ?P (?L (?M (?N b)))"
    by (simp only: port_merge_twice logging_merge_twice network_mode_merge_twice
          networks_merge_twice)
  also have "\<dots> = ?N (?M (?L (?P b)))"
    by (simp only: logging_port_commute network_mode_port_commute networks_port_commute
          network_mode_logging_commute networks_logging_commute networks_network_mode_commute)
  finally show ?thesis
    by (simp only: merge_all_def)
qed

text \<open>With these helpers \<open>compile\<close> never throws, and merges the block of mosquitto.\<close>

lemma compile_spec_logic:
  "compile (spec_compile_logic D) doc opts =
     ((case doc serviceName of
         None \<Rightarrow> doc
       | Some b \<Rightarrow> (case opts serviceName of
                      None \<Rightarrow> doc
                    | Some req \<Rightarrow> doc(serviceName \<mapsto> merge_all D req b))),
      Resolved (obj [(''type'', JStr ''service'')]))"
  by (simp add: compile_def compile_try_def spec_compile_logic_def merge_helper_def merge_all_def
        split: option.splits)

section \<open>Properties of the specification\<close>




text \<open>
  C2, as amended. Every successful \<open>compile\<close> and every successful \<open>build\<close> resolves with
  the object \<open>{ type: 'service' }\<close>: the tag is the field \<open>type\<close>, not \<open>kind\<close>.
\<close>

theorem resolved_value:
  "(compile L d opts = (d', Resolved v) \<longrightarrow> v = obj [(''type'', JStr ''service'')]) \<and>
   (build env p = (p', Resolved v) \<longrightarrow> v = obj [(''type'', JStr ''service'')])"
proof (intro conjI impI)
  assume "compile L d opts = (d', Resolved v)"
  then have "\<exists>d''. compile_try L d opts = (d'', Inr v)"
    using compile_cases [of L d opts] by (auto simp: catch_reject_not_Resolved)
  then show "v = obj [(''type'', JStr ''service'')]"
    by (auto simp: compile_try_def split: prod.splits sum.splits)
next
  assume "build env p = (p', Resolved v)"
  then have "\<exists>p''. build_try env p = (p'', Inr v)"
    using build_cases [of env p] by (auto simp: catch_reject_not_Resolved)
  then show "v = obj [(''type'', JStr ''service'')]"
    by (auto simp: build_try_def Let_def split: prod.splits sum.splits)
qed

theorem resolved_value_counterexample:
  "resolution (snd (compile sample_logic sample_doc JNull)) = Some (obj [(''type'', JStr ''service'')]) \<and>
   resolution (snd (compile sample_logic sample_doc JNull)) \<noteq> Some (obj [(''kind'', JStr ''service'')])"
  by (simp add: phase_simps sample_logic_def reads_services_def sample_doc_def)

theorem resolved_value_witness:
  "compile sample_logic sample_doc JNull =
     (sample_doc, Resolved (obj [(''type'', JStr ''service'')])) \<and>
   build (sample_env sample_settings) sample_params =
     (fst (build (sample_env sample_settings) sample_params),
      Resolved (obj [(''type'', JStr ''service'')]))"
proof -
  obtain v where c: "compile sample_logic sample_doc JNull = (sample_doc, Resolved v)"
    by (simp add: phase_simps sample_logic_def reads_services_def sample_doc_def sample_env_def
        sample_settings_def sample_params_def)
  obtain p' v' where b: "build (sample_env sample_settings) sample_params = (p', Resolved v')"
    by (simp add: phase_simps sample_logic_def reads_services_def sample_doc_def sample_env_def
        sample_settings_def sample_params_def)
  show ?thesis
    using resolved_value [THEN conjunct1, THEN mp, OF c]
      resolved_value [THEN conjunct2, THEN mp, OF b] c b
    by simp
qed

text \<open>
  C3. When none of the three checkers throws, \<open>issues\<close> resolves, whatever they found,
  with the array of the port conflicts, then the missing dependencies, then the network
  finding if it is truthy. And \<open>issues\<close> rejects only when a checker threw.
\<close>

theorem issues_conflicts_are_data:
  "(checkPortConflicts C d opts serviceName = Inr ps \<and>
    checkDependencyServices C d opts serviceName = Inr ds \<and>
    checkNetworkConflicts C d opts serviceName = Inr n \<longrightarrow>
      issues C d opts = Resolved (JArr (ps @ ds @ (if truthy n then [n] else [])))) \<and>
   (issues C d opts = Rejected r \<longrightarrow>
      (\<exists>err. checkPortConflicts C d opts serviceName = Inl err \<or>
             checkDependencyServices C d opts serviceName = Inl err \<or>
             checkNetworkConflicts C d opts serviceName = Inl err))"
proof (intro conjI impI)
  assume "checkPortConflicts C d opts serviceName = Inr ps \<and>
    checkDependencyServices C d opts serviceName = Inr ds \<and>
    checkNetworkConflicts C d opts serviceName = Inr n"
  then have "issues_try C d opts = Inr (JArr (ps @ ds @ (if truthy n then [n] else [])))"
    by (simp add: issues_try_Inr)
  then show "issues C d opts = Resolved (JArr (ps @ ds @ (if truthy n then [n] else [])))"
    by (simp add: issues_Resolved)
next
  assume "issues C d opts = Rejected r"
  then have "\<exists>err. issues_try C d opts = Inl err"
    using issues_cases [of C d opts] by auto
  then show "\<exists>err. checkPortConflicts C d opts serviceName = Inl err \<or>
             checkDependencyServices C d opts serviceName = Inl err \<or>
             checkNetworkConflicts C d opts serviceName = Inl err"
    by (auto simp: issues_try_def Let_def split: sum.splits)
qed

theorem issues_conflicts_are_data_witness:
  "issues (sample_checks (JStr ''host network taken'')) sample_doc JNull =
     Resolved (JArr [port_issue serviceName ''nodered'', port_issue serviceName ''grafana'',
                     JStr ''needs nodered'', JStr ''host network taken'']) \<and>
   rejection (issues (sample_checks (JStr ''host network taken'')) JUndefined JNull) \<noteq> None \<and>
   checkPortConflicts (sample_checks (JStr ''host network taken'')) JUndefined JNull serviceName
     = Inl (TypeError (''Cannot read properties of undefined (reading '' @ quoted ''services'' @ '')''))"
proof -
  let ?C = "sample_checks (JStr ''host network taken'')"
  have ok: "checkPortConflicts ?C sample_doc JNull serviceName =
        Inr [port_issue serviceName ''nodered'', port_issue serviceName ''grafana''] \<and>
      checkDependencyServices ?C sample_doc JNull serviceName = Inr [JStr ''needs nodered''] \<and>
      checkNetworkConflicts ?C sample_doc JNull serviceName = Inr (JStr ''host network taken'')"
    by (simp add: sample_checks_def sample_doc_def obj_def)
  obtain r where bad: "issues ?C JUndefined JNull = Rejected r"
    by (simp add: phase_simps sample_checks_def)
  show ?thesis
    using issues_conflicts_are_data [THEN conjunct1, THEN mp, OF ok]
      issues_conflicts_are_data [THEN conjunct2, THEN mp, OF bad] bad
    by (simp add: sample_checks_def)
qed

text \<open>
  C4. In the array a successful \<open>issues\<close> resolves with, the findings of the port checker
  are all there, as the first elements; what follows the port and dependency findings is
  the one value the network checker returned when it is truthy, and nothing otherwise.
  So the network check adds at most one element.
\<close>

theorem network_at_most_one_ports_all:
  assumes "issues C d opts = Resolved v"
  shows "\<exists>ps ds n xs. checkPortConflicts C d opts serviceName = Inr ps \<and>
           checkDependencyServices C d opts serviceName = Inr ds \<and>
           checkNetworkConflicts C d opts serviceName = Inr n \<and>
           v = JArr xs \<and>
           take (length ps) xs = ps \<and>
           drop (length ps + length ds) xs = (if truthy n then [n] else []) \<and>
           length xs = length ps + length ds + (if truthy n then 1 else 0)"
  using assms by (auto simp: issues_Resolved issues_try_Inr)

theorem network_at_most_one_ports_all_witness:
  "issues (sample_checks (obj [(''issueType'', JStr ''networkConflict'')])) sample_doc JNull =
     Resolved (JArr [port_issue serviceName ''nodered'', port_issue serviceName ''grafana'',
                     JStr ''needs nodered'', obj [(''issueType'', JStr ''networkConflict'')]]) \<and>
   take 2 [port_issue serviceName ''nodered'', port_issue serviceName ''grafana'',
           JStr ''needs nodered'', obj [(''issueType'', JStr ''networkConflict'')]] =
     [port_issue serviceName ''nodered'', port_issue serviceName ''grafana''] \<and>
   drop (2 + 1) [port_issue serviceName ''nodered'', port_issue serviceName ''grafana'',
           JStr ''needs nodered'', obj [(''issueType'', JStr ''networkConflict'')]] =
     [obj [(''issueType'', JStr ''networkConflict'')]]"
proof -
  let ?C = "sample_checks (obj [(''issueType'', JStr ''networkConflict'')])"
  let ?xs = "[port_issue serviceName ''nodered'', port_issue serviceName ''grafana'',
              JStr ''needs nodered'', obj [(''issueType'', JStr ''networkConflict'')]]"
  have r: "issues ?C sample_doc JNull = Resolved (JArr ?xs)"
    by (simp add: phase_simps sample_checks_def sample_doc_def)
  from network_at_most_one_ports_all [OF r] obtain ps ds n xs where
    ps: "checkPortConflicts ?C sample_doc JNull serviceName = Inr ps" and
    ds: "checkDependencyServices ?C sample_doc JNull serviceName = Inr ds" and
    n: "checkNetworkConflicts ?C sample_doc JNull serviceName = Inr n" and
    xs: "JArr ?xs = JArr xs" and
    pre: "take (length ps) xs = ps" and
    suf: "drop (length ps + length ds) xs = (if truthy n then [n] else [])"
    by blast
  have "ps = [port_issue serviceName ''nodered'', port_issue serviceName ''grafana'']"
    using ps by (simp add: sample_checks_def sample_doc_def obj_def)
  moreover have "ds = [JStr ''needs nodered'']"
    using ds by (simp add: sample_checks_def)
  moreover have "n = obj [(''issueType'', JStr ''networkConflict'')]"
    using n by (simp add: sample_checks_def)
  moreover have "xs = ?xs"
    using xs by simp
  ultimately show ?thesis
    using r pre suf by (simp add: obj_def)
qed

text \<open>
  C5. A successful \<open>build\<close> that starts from an empty \<open>zipList\<close>, \<open>prebuildScripts\<close> and
  \<open>postbuildScripts\<close> leaves exactly one zip entry, whose \<open>zipName\<close> is
  \<open>/services/mosquitto/mosquitto.conf\<close>; exactly one pre-build fragment, whose code is
  the three \<open>mkdir -p\<close> lines for the volume directories; and exactly three post-build
  fragments, in the order: the check that the service file exists (\<open>-f\<close>), the check that
  the three volume directories exist (\<open>-d\<close>), the fix of the volume permissions
  (\<open>chown -R 1883:1883\<close>). The code of every fragment is given line by line.
\<close>

theorem mosquitto_build_from_empty:
  assumes \<open>zipList p = []\<close> and \<open>prebuildScripts p = []\<close> and \<open>postbuildScripts p = []\<close>
    and \<open>build env p = (p', Resolved v)\<close>
  shows \<open>\<exists>fullPath pre check_file check_dirs fix_perms.
       zipList p' =
         [JObj [(''fullPath'', JStr fullPath),
                (''zipName'', JStr ''/services/mosquitto/mosquitto.conf'')] []] \<and>
       prebuildScripts p' =
         [JObj [(''serviceName'', JStr ''mosquitto''),
              (''comment'', JStr ''Create required service directory exists for first launch''),
              (''multilineComment'', JNull), (''code'', JStr pre)] []] \<and>
       lines pre =
         [[],
          ''mkdir -p ./volumes/mosquitto/data'',
          ''mkdir -p ./volumes/mosquitto/pwfile'',
          ''mkdir -p ./volumes/mosquitto/log'',
          []] \<and>
       postbuildScripts p' =
         [JObj [(''serviceName'', JStr ''mosquitto''),
              (''comment'', JStr ''Ensure required service files exist for launch''),
              (''multilineComment'', JNull), (''code'', JStr check_file)] [],
          JObj [(''serviceName'', JStr ''mosquitto''),
              (''comment'', JStr ''Ensure required service directory exists for launch''),
              (''multilineComment'', JNull), (''code'', JStr check_dirs)] [],
          JObj [(''serviceName'', JStr ''mosquitto''),
              (''comment'', JStr ''Setup correct permissions for volume''),
              (''multilineComment'', JNull), (''code'', JStr fix_perms)] []] \<and>
       lines check_file =
         [[],
          ''if [[ ! -f ./services/mosquitto/mosquitto.conf ]]; then'',
          ''  echo "Mosquitto config file is missing!"'',
          ''  sleep 2'',
          ''fi'',
          []] \<and>
       lines check_dirs =
         [[],
          ''HAS_ERROR="false"'',
          ''if [[ ! -d ./volumes/mosquitto/data ]]; then'',
          ''  echo "Mosquitto data directory is missing!"'',
          ''  HAS_ERROR="true"'',
          ''fi'',
          [],
          ''if [[ ! -d ./volumes/mosquitto/pwfile ]]; then'',
          ''  echo "Mosquitto pwfile directory is missing!"'',
          ''  HAS_ERROR="true"'',
          ''fi'',
          [],
          ''if [[ ! -d ./volumes/mosquitto/log ]]; then'',
          ''  echo "Mosquitto log directory is missing!"'',
          ''  HAS_ERROR="true"'',
          ''fi'',
          [],
          ''if [[ "$HAS_ERROR" == "true ]]; then'',
          ''  echo "Errors were detected when setting up Mosquitto"'',
          ''  sleep 1'',
          ''fi'',
          []] \<and>
       lines fix_perms =
         [[],
          ''echo "Updating mosquitto permissions:"'',
          ''echo "  chown -R 1883:1883 ./volumes/mosquitto/"'',
          ''sudo chown -R 1883:1883 ./volumes/mosquitto/'',
          ''    '']\<close>
proof -
  from assms(4) have "build_try env p = (p', Inr v)"
    by (simp add: build_Resolved)
  from build_try_Inr [OF this] obtain fullPath where p': "p' = p\<lparr>
      zipList := zipList p @
        [obj [(''fullPath'', JStr fullPath),
              (''zipName'', JStr ''/services/mosquitto/mosquitto.conf'')]],
      prebuildScripts := prebuildScripts p @
        [script ''Create required service directory exists for first launch''
           createVolumesDirectory],
      postbuildScripts := postbuildScripts p @
        [script ''Ensure required service files exist for launch'' checkServiceFilesCopied,
         script ''Ensure required service directory exists for launch'' checkVolumesDirectory,
         script ''Setup correct permissions for volume'' (setupVolumePermissions True)]\<rparr>"
    by blast
  have lists: "zipList p' =
        [JObj [(''fullPath'', JStr fullPath),
               (''zipName'', JStr ''/services/mosquitto/mosquitto.conf'')] []]"
    "prebuildScripts p' =
        [JObj [(''serviceName'', JStr ''mosquitto''),
               (''comment'', JStr ''Create required service directory exists for first launch''),
               (''multilineComment'', JNull), (''code'', JStr createVolumesDirectory)] []]"
    "postbuildScripts p' =
        [JObj [(''serviceName'', JStr ''mosquitto''),
               (''comment'', JStr ''Ensure required service files exist for launch''),
               (''multilineComment'', JNull), (''code'', JStr checkServiceFilesCopied)] [],
         JObj [(''serviceName'', JStr ''mosquitto''),
               (''comment'', JStr ''Ensure required service directory exists for launch''),
               (''multilineComment'', JNull), (''code'', JStr checkVolumesDirectory)] [],
         JObj [(''serviceName'', JStr ''mosquitto''),
               (''comment'', JStr ''Setup correct permissions for volume''),
               (''multilineComment'', JNull), (''code'', JStr (setupVolumePermissions True))] []]"
    using assms(1-3) by (simp_all add: p' script_def obj_def serviceName_def)
  show ?thesis
    using lists createVolumesDirectory_lines checkServiceFilesCopied_lines
      checkVolumesDirectory_lines setupVolumePermissions_lines
    by blast
qed

theorem mosquitto_build_from_empty_witness:
  \<open>zipList sample_params = [] \<and> prebuildScripts sample_params = [] \<and>
   postbuildScripts sample_params = [] \<and>
   snd (build (sample_env sample_settings) sample_params) = Resolved (obj [(''type'', JStr ''service'')]) \<and>
   (\<exists>fullPath pre check_file check_dirs fix_perms.
       zipList (fst (build (sample_env sample_settings) sample_params)) =
         [JObj [(''fullPath'', JStr fullPath),
                (''zipName'', JStr ''/services/mosquitto/mosquitto.conf'')] []] \<and>
       prebuildScripts (fst (build (sample_env sample_settings) sample_params)) =
         [JObj [(''serviceName'', JStr ''mosquitto''),
              (''comment'', JStr ''Create required service directory exists for first launch''),
              (''multilineComment'', JNull), (''code'', JStr pre)] []] \<and>
       lines pre =
         [[],
          ''mkdir -p ./volumes/mosquitto/data'',
          ''mkdir -p ./volumes/mosquitto/pwfile'',
          ''mkdir -p ./volumes/mosquitto/log'',
          []] \<and>
       postbuildScripts (fst (build (sample_env sample_settings) sample_params)) =
         [JObj [(''serviceName'', JStr ''mosquitto''),
              (''comment'', JStr ''Ensure required service files exist for launch''),
              (''multilineComment'', JNull), (''code'', JStr check_file)] [],
          JObj [(''serviceName'', JStr ''mosquitto''),
              (''comment'', JStr ''Ensure required service directory exists for launch''),
              (''multilineComment'', JNull), (''code'', JStr check_dirs)] [],
          JObj [(''serviceName'', JStr ''mosquitto''),
              (''comment'', JStr ''Setup correct permissions for volume''),
              (''multilineComment'', JNull), (''code'', JStr fix_perms)] []] \<and>
       lines check_file =
         [[],
          ''if [[ ! -f ./services/mosquitto/mosquitto.conf ]]; then'',
          ''  echo "Mosquitto config file is missing!"'',
          ''  sleep 2'',
          ''fi'',
          []] \<and>
       lines check_dirs =
         [[],
          ''HAS_ERROR="false"'',
          ''if [[ ! -d ./volumes/mosquitto/data ]]; then'',
          ''  echo "Mosquitto data directory is missing!"'',
          ''  HAS_ERROR="true"'',
          ''fi'',
          [],
          ''if [[ ! -d ./volumes/mosquitto/pwfile ]]; then'',
          ''  echo "Mosquitto pwfile directory is missing!"'',
          ''  HAS_ERROR="true"'',
          ''fi'',
          [],
          ''if [[ ! -d ./volumes/mosquitto/log ]]; then'',
          ''  echo "Mosquitto log directory is missing!"'',
          ''  HAS_ERROR="true"'',
          ''fi'',
          [],
          ''if [[ "$HAS_ERROR" == "true ]]; then'',
          ''  echo "Errors were detected when setting up Mosquitto"'',
          ''  sleep 1'',
          ''fi'',
          []] \<and>
       lines fix_perms =
         [[],
          ''echo "Updating mosquitto permissions:"'',
          ''echo "  chown -R 1883:1883 ./volumes/mosquitto/"'',
          ''sudo chown -R 1883:1883 ./volumes/mosquitto/'',
          ''    ''])\<close>
proof -
  have e: "zipList sample_params = []" "prebuildScripts sample_params = []"
    "postbuildScripts sample_params = []"
    by (simp_all add: sample_params_def)
  obtain p' v where b: "build (sample_env sample_settings) sample_params = (p', Resolved v)"
    by (simp add: phase_simps sample_env_def sample_settings_def sample_params_def)
  have v: "v = obj [(''type'', JStr ''service'')]"
    using b by (simp add: phase_simps sample_env_def sample_settings_def sample_params_def)
  show ?thesis
    using mosquitto_build_from_empty [OF e b] e b v
    by simp
qed

text \<open>
  C6. With the compile-merge logic of the specification, \<open>compile\<close> is idempotent: for every
  document and options, the document after two calls of \<open>compile\<close> with the same options is
  the document after one call.
\<close>

theorem compile_idempotent:
  "fst (compile (spec_compile_logic D) (fst (compile (spec_compile_logic D) doc opts)) opts)
     = fst (compile (spec_compile_logic D) doc opts)"
proof (cases "doc serviceName")
  case None
  then show ?thesis
    by (simp add: compile_spec_logic)
next
  case block: (Some b)
  show ?thesis
  proof (cases "opts serviceName")
    case None
    with block show ?thesis
      by (simp add: compile_spec_logic)
  next
    case (Some req)
    have once: "fst (compile (spec_compile_logic D) doc opts) = doc(serviceName \<mapsto> merge_all D req b)"
      using block Some by (simp add: compile_spec_logic)
    have "fst (compile (spec_compile_logic D) (doc(serviceName \<mapsto> merge_all D req b)) opts)
            = doc(serviceName \<mapsto> merge_all D req (merge_all D req b))"
      using Some by (simp add: compile_spec_logic)
    then show ?thesis
      by (simp only: once merge_all_twice)
  qed
qed

theorem compile_idempotent_witness:
  "map_option (\<lambda>b. (ports b ''1883'', ports b ''80'', ports b ''9001'', logging_enabled b,
        network_mode b, attached_networks b))
     (fst (compile (spec_compile_logic sample_descriptor)
        (fst (compile (spec_compile_logic sample_descriptor)
           [''mosquitto'' \<mapsto> sample_block] [''mosquitto'' \<mapsto> sample_options]))
        [''mosquitto'' \<mapsto> sample_options]) ''mosquitto'')
   = Some (Some ''1885'', None, Some ''9001'', True, None, [''backend'', ''iotstack_nw''])"
  using compile_idempotent [of sample_descriptor "[''mosquitto'' \<mapsto> sample_block]"
      "[''mosquitto'' \<mapsto> sample_options]"]
  by (simp add: compile_spec_logic serviceName_def merge_all_def port_merge_def logging_merge_def
        network_mode_merge_def networks_merge_def sample_descriptor_def sample_block_def
        sample_options_def declared_port_def write_port_def List.union_def List.insert_def)

text \<open>
  C7. \<open>build\<close> leaves \<open>outputTemplateJson\<close> (and \<open>buildOptions\<close>) as it found them, and
  only appends to \<open>zipList\<close>, \<open>prebuildScripts\<close> and \<open>postbuildScripts\<close>. This holds for
  every call, the successful ones among them.
\<close>

theorem build_leaves_document:
  "outputTemplateJson (fst (build env p)) = outputTemplateJson p \<and>
   buildOptions (fst (build env p)) = buildOptions p \<and>
   (\<exists>zs. zipList (fst (build env p)) = zipList p @ zs) \<and>
   (\<exists>pre. prebuildScripts (fst (build env p)) = prebuildScripts p @ pre) \<and>
   (\<exists>post. postbuildScripts (fst (build env p)) = postbuildScripts p @ post)"
proof -
  consider p' v where "build_try env p = (p', Inr v)" "build env p = (p', Resolved v)"
    | p' err where "build_try env p = (p', Inl err)" "fst (build env p) = p'"
    using build_cases [of env p] by auto
  then show ?thesis
  proof cases
    case 1
    from build_try_Inr [OF 1(1)] show ?thesis
      by (auto simp: 1(2))
  next
    case 2
    from build_try_Inl [OF 2(1)] show ?thesis
      by (simp add: 2(2))
  qed
qed

theorem build_leaves_document_witness:
  "outputTemplateJson (fst (build (sample_env sample_settings) sample_params)) = sample_doc \<and>
   outputTemplateJson (fst (build (sample_env (obj [])) sample_params)) = sample_doc"
  using build_leaves_document [of "sample_env sample_settings" sample_params]
    build_leaves_document [of "sample_env (obj [])" sample_params]
  by (simp add: sample_params_def)

text \<open>
  C8, as amended. For each of the three templates, \<open>getMeta()\<close> returns an object with
  the fields \<open>serviceName\<close>, \<open>displayName\<close> (a string) and \<open>serviceTypeTags\<close> (an array
  of strings), in that order, and for influxdb also \<open>iconUri\<close>. None has a field \<open>tags\<close>
  or \<open>icon\<close>.
\<close>

theorem getMeta_fields:
  "keys (getMeta t) =
     [''serviceName'', ''displayName'', ''serviceTypeTags''] @
     (if t = InfluxDb then [''iconUri''] else []) \<and>
   (\<exists>name tags. own_prop (getMeta t) ''displayName'' = Some (JStr name) \<and>
      own_prop (getMeta t) ''serviceTypeTags'' = Some (JArr (map JStr tags)))"
proof (cases t)
  case Prometheus
  show ?thesis
    unfolding Prometheus
    by (auto simp: prometheus_getMeta_def obj_def intro!: exI [of _ "[''wui'', ''database manager'']"])
next
  case InfluxDb
  show ?thesis
    unfolding InfluxDb
    by (auto simp: influxDb_getMeta_def obj_def
          intro!: exI [of _ "[''database'', ''timeseries'', ''sql'']"])
next
  case EspruinoHub
  show ?thesis
    unfolding EspruinoHub
    by (auto simp: espruinohub_getMeta_def obj_def intro!: exI [of _ "[''mqtt'', ''ble'', ''rpi only'']"])
qed

theorem getMeta_fields_counterexample:
  "keys (getMeta Prometheus) = [''serviceName'', ''displayName'', ''serviceTypeTags''] \<and>
   own_prop (getMeta Prometheus) ''tags'' = None \<and>
   own_prop (getMeta Prometheus) ''icon'' = None"
  by (simp add: prometheus_getMeta_def obj_def)

theorem getMeta_fields_witness:
  "keys (getMeta InfluxDb) = [''serviceName'', ''displayName'', ''serviceTypeTags'', ''iconUri''] \<and>
   keys (getMeta EspruinoHub) = [''serviceName'', ''displayName'', ''serviceTypeTags'']"
  using getMeta_fields [of InfluxDb] getMeta_fields [of EspruinoHub] by simp

text \<open>
  C9. The array a successful \<open>issues\<close> resolves with is ordered by checker: the port
  conflicts, then the dependency findings, then, last and only when it is truthy, the
  network finding.
\<close>

theorem issues_order:
  assumes "issues C d opts = Resolved v"
  shows "\<exists>ps ds n. checkPortConflicts C d opts serviceName = Inr ps \<and>
           checkDependencyServices C d opts serviceName = Inr ds \<and>
           checkNetworkConflicts C d opts serviceName = Inr n \<and>
           v = JArr (ps @ ds @ (if truthy n then [n] else []))"
  using assms by (simp add: issues_Resolved issues_try_Inr)

theorem issues_order_witness:
  "issues (sample_checks (JBool False)) sample_doc JNull =
     Resolved (JArr ([port_issue serviceName ''nodered'', port_issue serviceName ''grafana''] @
                     [JStr ''needs nodered''] @ []))"
proof -
  obtain v where r: "issues (sample_checks (JBool False)) sample_doc JNull = Resolved v"
    by (simp add: phase_simps sample_checks_def sample_doc_def)
  show ?thesis
    using issues_order [OF r] r
    by (auto simp: sample_checks_def sample_doc_def obj_def)
qed




end
